theory Spec2Isabelle
  imports Complex_Main "HOL-Library.Product_Lexorder" "HOL-Library.Multiset"
begin

section \<open>Floating-point values\<close>

text \<open>
  The temperature column and every derived column of \<^verbatim>\<open>run_hri.py\<close> hold IEEE doubles.
  A double is modelled as a real number or one of the three special values; arithmetic on
  finite values is exact (rounding and overflow are not modelled), arithmetic on the special
  values follows IEEE 754 as numpy and pandas apply it.
\<close>

datatype fval = Finite real | PosInf | NegInf | NaN

text \<open>\<^verbatim>\<open>np.isfinite\<close>\<close>

fun isfinite :: "fval \<Rightarrow> bool" where
  "isfinite (Finite r) = True"
| "isfinite PosInf = False"
| "isfinite NegInf = False"
| "isfinite NaN = False"

fun fl_neg :: "fval \<Rightarrow> fval" where
  "fl_neg (Finite r) = Finite (- r)"
| "fl_neg PosInf = NegInf"
| "fl_neg NegInf = PosInf"
| "fl_neg NaN = NaN"

fun fl_add :: "fval \<Rightarrow> fval \<Rightarrow> fval" where
  "fl_add (Finite a) (Finite b) = Finite (a + b)"
| "fl_add (Finite a) PosInf = PosInf"
| "fl_add (Finite a) NegInf = NegInf"
| "fl_add (Finite a) NaN = NaN"
| "fl_add PosInf (Finite b) = PosInf"
| "fl_add PosInf PosInf = PosInf"
| "fl_add PosInf NegInf = NaN"
| "fl_add PosInf NaN = NaN"
| "fl_add NegInf (Finite b) = NegInf"
| "fl_add NegInf PosInf = NaN"
| "fl_add NegInf NegInf = NegInf"
| "fl_add NegInf NaN = NaN"
| "fl_add NaN b = NaN"

definition fl_sub :: "fval \<Rightarrow> fval \<Rightarrow> fval" where
  "fl_sub a b = fl_add a (fl_neg b)"

fun fl_abs :: "fval \<Rightarrow> fval" where
  "fl_abs (Finite r) = Finite \<bar>r\<bar>"
| "fl_abs PosInf = PosInf"
| "fl_abs NegInf = PosInf"
| "fl_abs NaN = NaN"

text \<open>The product of a finite number and an infinity takes the sign of the product; zero times
  an infinity is NaN.\<close>

definition signed_inf :: "real \<Rightarrow> fval" where
  "signed_inf s = (if 0 < s then PosInf else if s < 0 then NegInf else NaN)"

fun fl_mul :: "fval \<Rightarrow> fval \<Rightarrow> fval" where
  "fl_mul (Finite a) (Finite b) = Finite (a * b)"
| "fl_mul (Finite a) PosInf = signed_inf a"
| "fl_mul (Finite a) NegInf = signed_inf (- a)"
| "fl_mul (Finite a) NaN = NaN"
| "fl_mul PosInf (Finite b) = signed_inf b"
| "fl_mul PosInf PosInf = PosInf"
| "fl_mul PosInf NegInf = NegInf"
| "fl_mul PosInf NaN = NaN"
| "fl_mul NegInf (Finite b) = signed_inf (- b)"
| "fl_mul NegInf PosInf = NegInf"
| "fl_mul NegInf NegInf = PosInf"
| "fl_mul NegInf NaN = NaN"
| "fl_mul NaN b = NaN"

text \<open>\<^verbatim>\<open>a >= b\<close> and \<^verbatim>\<open>a < b\<close> on doubles: every comparison with NaN is false.\<close>

fun fl_ge :: "fval \<Rightarrow> fval \<Rightarrow> bool" where
  "fl_ge (Finite a) (Finite b) = (b \<le> a)"
| "fl_ge (Finite a) PosInf = False"
| "fl_ge (Finite a) NegInf = True"
| "fl_ge (Finite a) NaN = False"
| "fl_ge PosInf (Finite b) = True"
| "fl_ge PosInf PosInf = True"
| "fl_ge PosInf NegInf = True"
| "fl_ge PosInf NaN = False"
| "fl_ge NegInf (Finite b) = False"
| "fl_ge NegInf PosInf = False"
| "fl_ge NegInf NegInf = True"
| "fl_ge NegInf NaN = False"
| "fl_ge NaN b = False"

fun fl_lt :: "fval \<Rightarrow> fval \<Rightarrow> bool" where
  "fl_lt (Finite a) (Finite b) = (a < b)"
| "fl_lt (Finite a) PosInf = True"
| "fl_lt (Finite a) NegInf = False"
| "fl_lt (Finite a) NaN = False"
| "fl_lt PosInf b = False"
| "fl_lt NegInf (Finite b) = True"
| "fl_lt NegInf PosInf = True"
| "fl_lt NegInf NegInf = False"
| "fl_lt NegInf NaN = False"
| "fl_lt NaN b = False"

text \<open>\<^verbatim>\<open>np.maximum\<close>: the larger argument, NaN as soon as one argument is NaN.\<close>

definition np_maximum :: "fval \<Rightarrow> fval \<Rightarrow> fval" where
  "np_maximum a b = (if a = NaN \<or> b = NaN then NaN else if fl_ge a b then a else b)"

text \<open>\<^verbatim>\<open>np.log\<close>: the natural logarithm; minus infinity at zero, NaN below zero.\<close>

fun np_log :: "fval \<Rightarrow> fval" where
  "np_log (Finite r) = (if 0 < r then Finite (ln r) else if r = 0 then NegInf else NaN)"
| "np_log PosInf = PosInf"
| "np_log NegInf = NaN"
| "np_log NaN = NaN"

text \<open>\<^verbatim>\<open>Series.fillna\<close>: only NaN counts as missing, an infinity is kept.\<close>

definition fillna :: "fval \<Rightarrow> fval \<Rightarrow> fval" where
  "fillna v x = (if x = NaN then v else x)"

text \<open>\<^verbatim>\<open>Series.diff\<close>: NaN in the first row, then each value minus the one before it.\<close>

fun diff :: "fval list \<Rightarrow> fval list" where
  "diff [] = []"
| "diff (t # ts) = NaN # map2 fl_sub ts (t # ts)"

section \<open>Settings\<close>

definition T_BASE :: real where "T_BASE = 28.0"
definition ALPHA :: real where "ALPHA = 1.0"
definition BETA :: real where "BETA = 0.8"
definition GAMMA :: real where "GAMMA = 0.5"
definition HRI_THRESHOLD :: real where "HRI_THRESHOLD = 3.0"
definition SEVERE_TEMP :: real where "SEVERE_TEMP = 30.0"

definition JEJU_LAT_MIN :: real where "JEJU_LAT_MIN = 32.0"
definition JEJU_LAT_MAX :: real where "JEJU_LAT_MAX = 35.0"
definition JEJU_LON_MIN :: real where "JEJU_LON_MIN = 124.0"
definition JEJU_LON_MAX :: real where "JEJU_LON_MAX = 129.0"

definition START_DATE :: string where "START_DATE = ''2024-07-20''"
definition END_DATE :: string where "END_DATE = ''2024-10-05''"
definition REGION_ID :: string where "REGION_ID = ''JEJU_OFFSHORE''"
definition DATASET_NAME :: string where
  "DATASET_NAME = ''NOAA OISST v2.1 AVHRR daily (0.25deg)''"
definition MODEL_VERSION :: string where "MODEL_VERSION = ''hri-v1.1-levels''"

section \<open>Level mapping\<close>

definition risk_level_from_T_D :: "fval \<Rightarrow> int \<Rightarrow> string" where
  "risk_level_from_T_D t d =
     (if \<not> isfinite t then ''UNKNOWN''
      else if fl_lt t (Finite T_BASE) then ''NORMAL''
      else if d < 3 then ''WATCH''
      else if fl_lt t (Finite SEVERE_TEMP) then ''WARNING''
      else ''SEVERE'')"

section \<open>The daily frame and the HRI pass\<close>

text \<open>
  A calendar date is the triple (year, month, day) under the lexicographic order, which is
  the order of the calendar. A row of the daily frame has the three columns \<^verbatim>\<open>main\<close> puts
  there; \<^verbatim>\<open>build_hri\<close> adds five more.
\<close>

type_synonym date = "nat \<times> nat \<times> nat"

record daily =
  date :: date
  file_name :: string
  T_t :: fval

record hri_row = daily +
  D_con :: int
  V_var :: fval
  HRI :: fval
  trigger :: bool
  level :: string

text \<open>The streak loop of \<^verbatim>\<open>build_hri\<close>: \<open>streak\<close> is the counter before the row is read.\<close>

fun dcon_loop :: "int \<Rightarrow> fval list \<Rightarrow> int list" where
  "dcon_loop streak [] = []"
| "dcon_loop streak (t # ts) =
     (let streak' = (if isfinite t \<and> fl_ge t (Finite T_BASE) then streak + 1 else 0)
      in streak' # dcon_loop streak' ts)"

text \<open>The three addends of the HRI column and their sum, as \<^verbatim>\<open>build_hri\<close> writes it.\<close>

definition excess_term :: "fval \<Rightarrow> fval" where
  "excess_term t = fl_mul (Finite ALPHA) (np_maximum (Finite 0) (fl_sub t (Finite T_BASE)))"

definition persistence_term :: "int \<Rightarrow> fval" where
  "persistence_term d = fl_mul (Finite BETA) (np_log (fl_add (Finite (of_int d)) (Finite 1)))"

definition volatility_term :: "fval \<Rightarrow> fval" where
  "volatility_term v = fl_mul (Finite GAMMA) v"

definition hri_formula :: "fval \<Rightarrow> int \<Rightarrow> fval \<Rightarrow> fval" where
  "hri_formula t d v = fl_add (fl_add (excess_term t) (persistence_term d)) (volatility_term v)"

definition mk_row :: "daily \<Rightarrow> int \<Rightarrow> fval \<Rightarrow> hri_row" where
  "mk_row r d v =
     (let h = hri_formula (T_t r) d v
      in \<lparr> date = date r, file_name = file_name r, T_t = T_t r,
           D_con = d, V_var = v, HRI = h,
           trigger = fl_ge h (Finite HRI_THRESHOLD),
           level = risk_level_from_T_D (T_t r) d \<rparr>)"

text \<open>
  \<^verbatim>\<open>sort_values("date")\<close> is the stable \<open>sort_key\<close>; on a frame whose dates are pairwise
  different every sorting algorithm gives this result. The frame with no row is the frame
  with the three columns and no row.
\<close>

definition build_hri :: "daily list \<Rightarrow> hri_row list" where
  "build_hri df_daily =
     (let df = sort_key date df_daily;
          dcon = dcon_loop 0 (map T_t df);
          vvar = map (\<lambda>x. fillna (Finite 0) (fl_abs x)) (diff (map T_t df))
      in map (\<lambda>(r, d, v). mk_row r d v) (zip df (zip dcon vvar)))"

section \<open>JSON payloads\<close>

text \<open>
  The payloads are Python dictionaries written by \<^verbatim>\<open>json.dump\<close>. A dictionary is an
  association list in insertion order. Strings are the bytes of their UTF-8 encoding, which is
  what the export writes (\<^verbatim>\<open>ensure_ascii=False\<close>, \<^verbatim>\<open>encoding="utf-8"\<close>).
\<close>

datatype json =
    JNull
  | JBool bool
  | JInt int
  | JFloat fval
  | JStr string
  | JList "json list"
  | JDict "(string \<times> json) list"

fun jget :: "json \<Rightarrow> string \<Rightarrow> json option" where
  "jget (JDict kvs) k = map_of kvs k"
| "jget JNull k = None"
| "jget (JBool b) k = None"
| "jget (JInt i) k = None"
| "jget (JFloat x) k = None"
| "jget (JStr s) k = None"
| "jget (JList js) k = None"

fun jkeys :: "json \<Rightarrow> string list" where
  "jkeys (JDict kvs) = map fst kvs"
| "jkeys JNull = []"
| "jkeys (JBool b) = []"
| "jkeys (JInt i) = []"
| "jkeys (JFloat x) = []"
| "jkeys (JStr s) = []"
| "jkeys (JList js) = []"

text \<open>\<^verbatim>\<open>strftime("%Y-%m-%d")\<close> for the years a pandas timestamp can hold (four digits).\<close>

definition digit :: "nat \<Rightarrow> char" where
  "digit n = char_of (48 + n mod 10)"

fun strftime_ymd :: "date \<Rightarrow> string" where
  "strftime_ymd (y, m, d) =
     [digit (y div 1000), digit (y div 100), digit (y div 10), digit y] @ ''-'' @
     [digit (m div 10), digit m] @ ''-'' @
     [digit (d div 10), digit d]"

text \<open>\<^verbatim>\<open>to_float\<close>: \<^verbatim>\<open>float(x)\<close> of a column value, which is a double already and does not raise.\<close>

definition to_float :: "fval \<Rightarrow> json" where
  "to_float x = JFloat x"

text \<open>The sign U+2265 of the message, in UTF-8.\<close>

definition ge_sign :: string where
  "ge_sign = [CHR 0xE2, CHR 0x89, CHR 0xA5]"

definition build_final_event :: "hri_row \<Rightarrow> json" where
  "build_final_event row =
     (let date_str = strftime_ymd (date row)
      in JDict
        [(''event_type'', JStr ''HRI_TRIGGER''),
         (''region'', JStr REGION_ID),
         (''date'', JStr date_str),
         (''metrics'', JDict
            [(''T_t'', to_float (T_t row)),
             (''D_con'', JInt (D_con row)),
             (''V_var'', to_float (V_var row)),
             (''HRI'', to_float (HRI row))]),
         (''threshold'', JDict
            [(''HRI'', JFloat (Finite HRI_THRESHOLD)),
             (''T_base'', JFloat (Finite T_BASE)),
             (''severe_temp'', JFloat (Finite SEVERE_TEMP)),
             (''warning_duration_days'', JInt 3)]),
         (''weights'', JDict
            [(''alpha'', JFloat (Finite ALPHA)),
             (''beta'', JFloat (Finite BETA)),
             (''gamma'', JFloat (Finite GAMMA))]),
         (''source'', JDict
            [(''dataset'', JStr DATASET_NAME),
             (''roi'', JDict
                [(''lat_min'', JFloat (Finite JEJU_LAT_MIN)),
                 (''lat_max'', JFloat (Finite JEJU_LAT_MAX)),
                 (''lon_min'', JFloat (Finite JEJU_LON_MIN)),
                 (''lon_max'', JFloat (Finite JEJU_LON_MAX))]),
             (''model_version'', JStr MODEL_VERSION)]),
         (''decision'', JDict
            [(''triggered'', JBool True),
             (''level'', JStr (level row))]),
         (''message'', JStr
            (''['' @ REGION_ID @ ''] '' @ level row @ '' - HRI trigger on '' @ date_str @
             '' (HRI'' @ ge_sign @ ''3.0'' @ '').''))])"

section \<open>The run\<close>

text \<open>
  The daily value source (download, NetCDF parsing, the mean over the region) is outside the
  model: \<open>source day\<close> is the file name and the mean temperature of the day, or \<open>None\<close> when
  the download or the parsing failed, in which case \<^verbatim>\<open>main\<close> skips the day. \<open>days\<close> is the
  list \<^verbatim>\<open>daterange(start, end)\<close> walks through.
\<close>

fun collect_rows :: "(date \<Rightarrow> (string \<times> fval) option) \<Rightarrow> date list \<Rightarrow> daily list" where
  "collect_rows source [] = []"
| "collect_rows source (day # days) =
     (case source day of
        None \<Rightarrow> collect_rows source days
      | Some (f, t) \<Rightarrow> \<lparr> date = day, file_name = f, T_t = t \<rparr> # collect_rows source days)"

text \<open>A record of \<^verbatim>\<open>to_dict(orient="records")\<close>, the date column rendered as a string.\<close>

definition row_record :: "hri_row \<Rightarrow> json" where
  "row_record r =
     JDict
       [(''date'', JStr (strftime_ymd (date r))),
        (''file'', JStr (file_name r)),
        (''T_t'', JFloat (T_t r)),
        (''D_con'', JInt (D_con r)),
        (''V_var'', JFloat (V_var r)),
        (''HRI'', JFloat (HRI r)),
        (''trigger'', JBool (trigger r)),
        (''level'', JStr (level r))]"

text \<open>
  The three output paths: \<open>None\<close> is a path nothing has been written to. The CSV holds the
  rows of the frame.
\<close>

record outputs =
  OUT_HRI_CSV :: "hri_row list option"
  OUT_TRIGGER_LIST_JSON :: "json option"
  OUT_FINAL_EVENT_JSON :: "json option"

datatype error = RuntimeError string | IndexError

definition no_trigger_event :: json where
  "no_trigger_event =
     JDict
       [(''event_type'', JStr ''HRI_TRIGGER''),
        (''region'', JStr REGION_ID),
        (''date'', JNull),
        (''decision'', JDict [(''triggered'', JBool False), (''level'', JStr ''NORMAL'')]),
        (''message'', JStr
           (''['' @ REGION_ID @ ''] No trigger in '' @ START_DATE @ '' ~ '' @ END_DATE @
            ''. Adjust threshold if needed.''))]"

definition main :: "(date \<Rightarrow> (string \<times> fval) option) \<Rightarrow> date list \<Rightarrow> outputs
                    \<Rightarrow> (error + unit) \<times> outputs" where
  "main source days fs =
     (let rows = collect_rows source days
      in if rows = [] then
           (Inl (RuntimeError ''No processed days. Check network/URL/permissions.''), fs)
         else
           let df_hri = build_hri rows;
               fs1 = fs\<lparr> OUT_HRI_CSV := Some df_hri \<rparr>;
               triggered = filter trigger df_hri;
               trigger_list = map row_record triggered;
               fs2 = fs1\<lparr> OUT_TRIGGER_LIST_JSON := Some (JList trigger_list) \<rparr>
           in if length trigger_list > 0 then
                (case filter trigger df_hri of
                   [] \<Rightarrow> (Inl IndexError, fs2)
                 | first_trigger_row # rest \<Rightarrow>
                     let final_event = build_final_event first_trigger_row
                     in (Inr (), fs2\<lparr> OUT_FINAL_EVENT_JSON := Some final_event \<rparr>))
              else
                (Inr (), fs2\<lparr> OUT_FINAL_EVENT_JSON := Some no_trigger_event \<rparr>))"

section \<open>The specification's formulas\<close>

text \<open>
  The formulas of the specification, written from its words, for comparison with the columns
  \<^verbatim>\<open>build_hri\<close> computes. \<open>T\<close> is the temperature series in date order and \<open>t\<close> the index
  of a day. A temperature is finite or missing (NaN).
\<close>

definition spec_qualifies :: "fval \<Rightarrow> bool" where
  "spec_qualifies t = (case t of Finite r \<Rightarrow> T_BASE \<le> r | _ \<Rightarrow> False)"

fun spec_D_con :: "fval list \<Rightarrow> nat \<Rightarrow> int" where
  "spec_D_con T 0 = (if spec_qualifies (T ! 0) then 0 + 1 else 0)"
| "spec_D_con T (Suc t) = (if spec_qualifies (T ! Suc t) then spec_D_con T t + 1 else 0)"




text \<open>The decision table of the level classifier: the first row whose condition holds wins.\<close>

definition warning_duration_days :: int where
  "warning_duration_days = 3"

definition decision_table :: "((fval \<times> int \<Rightarrow> bool) \<times> string) list" where
  "decision_table =
     [(\<lambda>(t, d). \<not> isfinite t, ''UNKNOWN''),
      (\<lambda>(t, d). fl_lt t (Finite T_BASE), ''NORMAL''),
      (\<lambda>(t, d). fl_ge t (Finite T_BASE) \<and> d < warning_duration_days, ''WATCH''),
      (\<lambda>(t, d). warning_duration_days \<le> d \<and> fl_lt t (Finite SEVERE_TEMP), ''WARNING''),
      (\<lambda>(t, d). warning_duration_days \<le> d \<and> fl_ge t (Finite SEVERE_TEMP), ''SEVERE'')]"

fun first_match :: "(('a \<Rightarrow> bool) \<times> 'b) list \<Rightarrow> 'a \<Rightarrow> 'b option" where
  "first_match [] x = None"
| "first_match ((c, l) # rows) x = (if c x then Some l else first_match rows x)"

section \<open>Concrete series\<close>

text \<open>Three days of July 2024 with the temperatures 27.0, 28.5 and 29.0.\<close>

definition series_A :: "daily list" where
  "series_A =
     [\<lparr> date = (2024, 7, 20), file_name = ''a.nc'', T_t = Finite 27.0 \<rparr>,
      \<lparr> date = (2024, 7, 21), file_name = ''b.nc'', T_t = Finite 28.5 \<rparr>,
      \<lparr> date = (2024, 7, 22), file_name = ''c.nc'', T_t = Finite 29.0 \<rparr>]"

text \<open>Two hot days and a cooler one: 28.5, 29.0 and 27.0.\<close>

definition series_B :: "daily list" where
  "series_B =
     [\<lparr> date = (2024, 8, 1), file_name = ''a.nc'', T_t = Finite 28.5 \<rparr>,
      \<lparr> date = (2024, 8, 2), file_name = ''b.nc'', T_t = Finite 29.0 \<rparr>,
      \<lparr> date = (2024, 8, 3), file_name = ''c.nc'', T_t = Finite 27.0 \<rparr>]"


text \<open>The same three days as \<open>series_A\<close>, in another order.\<close>

definition series_A_shuffled :: "daily list" where
  "series_A_shuffled =
     [\<lparr> date = (2024, 7, 22), file_name = ''c.nc'', T_t = Finite 29.0 \<rparr>,
      \<lparr> date = (2024, 7, 20), file_name = ''a.nc'', T_t = Finite 27.0 \<rparr>,
      \<lparr> date = (2024, 7, 21), file_name = ''b.nc'', T_t = Finite 28.5 \<rparr>]"

text \<open>The three output paths before the run.\<close>

definition no_outputs :: outputs where
  "no_outputs = \<lparr> OUT_HRI_CSV = None, OUT_TRIGGER_LIST_JSON = None, OUT_FINAL_EVENT_JSON = None \<rparr>"

text \<open>A source that delivers nothing, and the one day asked of it.\<close>

definition source_none :: "date \<Rightarrow> (string \<times> fval) option" where
  "source_none = (\<lambda>d. None)"

definition days_1 :: "date list" where
  "days_1 = [(2024, 9, 1)]"

text \<open>A source with one cool day: 20.0.\<close>

definition source_cold :: "date \<Rightarrow> (string \<times> fval) option" where
  "source_cold = (\<lambda>d. if d = (2024, 9, 1) then Some (''a.nc'', Finite 20.0) else None)"

text \<open>A source with the temperatures 20.0 and 27.0 and a third day that cannot be obtained.\<close>

definition source_jump :: "date \<Rightarrow> (string \<times> fval) option" where
  "source_jump =
     (\<lambda>d. if d = (2024, 9, 1) then Some (''a.nc'', Finite 20.0)
          else if d = (2024, 9, 2) then Some (''b.nc'', Finite 27.0)
          else None)"

definition days_3 :: "date list" where
  "days_3 = [(2024, 9, 1), (2024, 9, 2), (2024, 9, 3)]"

text \<open>One day with an infinite temperature.\<close>

definition series_inf :: "daily list" where
  "series_inf = [\<lparr> date = (2024, 8, 20), file_name = ''a.nc'', T_t = PosInf \<rparr>]"

text \<open>Two rows of the same date, in both orders.\<close>

definition series_dup :: "daily list" where
  "series_dup =
     [\<lparr> date = (2024, 8, 21), file_name = ''a.nc'', T_t = Finite 27.0 \<rparr>,
      \<lparr> date = (2024, 8, 21), file_name = ''b.nc'', T_t = Finite 29.0 \<rparr>]"

section \<open>The columns of the frame\<close>

lemma length_dcon_loop: "length (dcon_loop s ts) = length ts"
  by (induction ts arbitrary: s) (simp_all add: Let_def)

lemma length_diff: "length (diff ts) = length ts"
  by (cases ts) simp_all

lemma dcon_loop_nth_0:
  "ts \<noteq> [] \<Longrightarrow> dcon_loop s ts ! 0 = (if isfinite (ts ! 0) \<and> fl_ge (ts ! 0) (Finite T_BASE) then s + 1 else 0)"
  by (cases ts) (simp_all add: Let_def)

lemma dcon_loop_nth_Suc:
  "Suc i < length ts \<Longrightarrow>
   dcon_loop s ts ! Suc i =
     (if isfinite (ts ! Suc i) \<and> fl_ge (ts ! Suc i) (Finite T_BASE)
      then dcon_loop s ts ! i + 1 else 0)"
proof (induction ts arbitrary: s i)
  case Nil
  then show ?case by simp
next
  case (Cons t ts)
  show ?case
  proof (cases i)
    case 0
    with Cons.prems show ?thesis by (cases ts) (simp_all add: Let_def)
  next
    case (Suc j)
    with Cons.prems have "Suc j < length ts" by simp
    from Cons.IH [OF this] Suc show ?thesis by (simp add: Let_def)
  qed
qed



lemma length_build_hri: "length (build_hri xs) = length xs"
  by (simp add: build_hri_def Let_def length_dcon_loop length_diff)

lemma build_hri_nth:
  "i < length xs \<Longrightarrow>
   build_hri xs ! i =
     mk_row (sort_key date xs ! i)
            (dcon_loop 0 (map T_t (sort_key date xs)) ! i)
            (fillna (Finite 0) (fl_abs (diff (map T_t (sort_key date xs)) ! i)))"
  by (simp add: build_hri_def Let_def length_dcon_loop length_diff)


lemma qualifies_iff: "(isfinite t \<and> fl_ge t (Finite T_BASE)) = spec_qualifies t"
  by (cases t) (simp_all add: spec_qualifies_def)

lemma dcon_loop_spec: "t < length T \<Longrightarrow> dcon_loop 0 T ! t = spec_D_con T t"
proof (induction t)
  case 0
  then show ?case by (simp add: dcon_loop_nth_0 qualifies_iff)
next
  case (Suc t)
  then show ?case by (simp add: dcon_loop_nth_Suc qualifies_iff)
qed

lemma spec_D_con_nonneg: "0 \<le> spec_D_con T t"
  by (induction t) simp_all






section \<open>The level classifier\<close>

lemma not_lt_iff_ge: "isfinite t \<Longrightarrow> (\<not> fl_lt t (Finite c)) = fl_ge t (Finite c)"
  by (cases t) auto

text \<open>
  Claim C2. The level of a pair of temperature and streak is the level of the first row of
  the decision table whose condition holds: a non-finite temperature is UNKNOWN, a
  temperature below the base is NORMAL, a streak shorter than three days is WATCH, a longer
  streak is WARNING below the severe temperature and SEVERE from it on. The severe boundary
  is inclusive: 29.5 with a streak of three is WARNING, 30.0 is SEVERE.
\<close>

theorem risk_level_decision_table:
  "first_match decision_table (t, d) = Some (risk_level_from_T_D t d) \<and>
   (\<not> isfinite t \<longrightarrow> risk_level_from_T_D t d = ''UNKNOWN'') \<and>
   (isfinite t \<and> fl_lt t (Finite T_BASE) \<longrightarrow> risk_level_from_T_D t d = ''NORMAL'') \<and>
   (isfinite t \<and> fl_ge t (Finite T_BASE) \<and> d < warning_duration_days
      \<longrightarrow> risk_level_from_T_D t d = ''WATCH'') \<and>
   (isfinite t \<and> fl_ge t (Finite T_BASE) \<and> warning_duration_days \<le> d
      \<and> fl_lt t (Finite SEVERE_TEMP) \<longrightarrow> risk_level_from_T_D t d = ''WARNING'') \<and>
   (isfinite t \<and> warning_duration_days \<le> d \<and> fl_ge t (Finite SEVERE_TEMP)
      \<longrightarrow> risk_level_from_T_D t d = ''SEVERE'') \<and>
   risk_level_from_T_D (Finite 29.5) 3 = ''WARNING'' \<and>
   risk_level_from_T_D (Finite 30.0) 3 = ''SEVERE''"
proof (cases t)
  case (Finite r)
  then show ?thesis
    by (auto simp add: decision_table_def risk_level_from_T_D_def warning_duration_days_def
          T_BASE_def SEVERE_TEMP_def)
qed (simp_all add: decision_table_def risk_level_from_T_D_def warning_duration_days_def
          T_BASE_def SEVERE_TEMP_def)

theorem risk_level_decision_table_witness:
  "isfinite (Finite 29.5) \<and> fl_ge (Finite 29.5) (Finite T_BASE) \<and> warning_duration_days \<le> 3 \<and>
   fl_lt (Finite 29.5) (Finite SEVERE_TEMP) \<and>
   first_match decision_table (Finite 29.5, 3) = Some ''WARNING'' \<and>
   risk_level_from_T_D (Finite 29.5) 3 = ''WARNING''"
  using risk_level_decision_table [of "Finite 29.5" 3]
  by (simp add: T_BASE_def SEVERE_TEMP_def warning_duration_days_def)

section \<open>The streak\<close>

lemma map_T_t_build_hri: "map T_t (build_hri xs) = map T_t (sort_key date xs)"
  by (rule nth_equalityI) (simp_all add: length_build_hri build_hri_nth mk_row_def Let_def)

lemma build_hri_D_con:
  assumes "i < length xs"
  shows "D_con (build_hri xs ! i) = spec_D_con (map T_t (build_hri xs)) i"
proof -
  from assms have "i < length (map T_t (sort_key date xs))" by simp
  from dcon_loop_spec [OF this] assms show ?thesis
    by (simp add: map_T_t_build_hri build_hri_nth mk_row_def Let_def)
qed

lemma spec_D_con_not_qualifies: "\<not> spec_qualifies (T ! k) \<Longrightarrow> spec_D_con T k = 0"
  by (cases k) simp_all

lemma spec_D_con_run:
  "\<forall>k. a \<le> k \<and> k \<le> b \<longrightarrow> spec_qualifies (T ! k) \<Longrightarrow>
   a = 0 \<or> \<not> spec_qualifies (T ! (a - 1)) \<Longrightarrow> a \<le> k \<Longrightarrow> k \<le> b \<Longrightarrow>
   spec_D_con T k = int (k - a) + 1"
proof (induction k)
  case 0
  then show ?case by simp
next
  case (Suc k)
  show ?case
  proof (cases "a = Suc k")
    case True
    with Suc.prems have "\<not> spec_qualifies (T ! k)" by simp
    then have "spec_D_con T k = 0" by (rule spec_D_con_not_qualifies)
    moreover from Suc.prems have "spec_qualifies (T ! Suc k)" by simp
    ultimately show ?thesis using True by simp
  next
    case False
    with Suc.prems have "a \<le> k" "k \<le> b" by simp_all
    with Suc.IH Suc.prems have "spec_D_con T k = int (k - a) + 1" by simp
    moreover from Suc.prems have "spec_qualifies (T ! Suc k)" by simp
    ultimately show ?thesis using \<open>a \<le> k\<close> by (simp add: Suc_diff_le)
  qed
qed

text \<open>
  Claim C4. In the frame \<^verbatim>\<open>build_hri\<close> returns, along a run of days \<open>a\<close> to \<open>b\<close> that are all
  finite and at or above the base temperature the streak grows by exactly one from each day
  to the next; when the run starts the series or follows a day that does not qualify, the
  streak counts the days of the run from one; and on the day after the run, if it does not
  qualify, the streak is exactly zero.
\<close>

theorem D_con_runs:
  assumes b: "b < length (build_hri xs)"
      and run: "\<forall>k. a \<le> k \<and> k \<le> b \<longrightarrow> spec_qualifies (T_t (build_hri xs ! k))"
  shows "(\<forall>k. a \<le> k \<and> k < b \<longrightarrow>
            D_con (build_hri xs ! Suc k) = D_con (build_hri xs ! k) + 1) \<and>
         (a = 0 \<or> \<not> spec_qualifies (T_t (build_hri xs ! (a - 1))) \<longrightarrow>
            (\<forall>k. a \<le> k \<and> k \<le> b \<longrightarrow> D_con (build_hri xs ! k) = int (k - a) + 1)) \<and>
         (Suc b < length (build_hri xs) \<and> \<not> spec_qualifies (T_t (build_hri xs ! Suc b)) \<longrightarrow>
            D_con (build_hri xs ! Suc b) = 0)"
proof -
  let ?ys = "build_hri xs"
  let ?T = "map T_t ?ys"
  have D: "D_con (?ys ! i) = spec_D_con ?T i" if "i < length ?ys" for i
    using that build_hri_D_con [of i xs] by (simp add: length_build_hri)
  have run': "\<forall>k. a \<le> k \<and> k \<le> b \<longrightarrow> spec_qualifies (?T ! k)"
    using run b by simp
  have one: "D_con (?ys ! Suc k) = D_con (?ys ! k) + 1" if "a \<le> k" "k < b" for k
  proof -
    from that b have "spec_qualifies (?T ! Suc k)" using run' by simp
    with that b show ?thesis by (simp add: D)
  qed
  have two: "D_con (?ys ! k) = int (k - a) + 1"
    if "a = 0 \<or> \<not> spec_qualifies (T_t (?ys ! (a - 1)))" "a \<le> k" "k \<le> b" for k
  proof -
    from that b have "a = 0 \<or> \<not> spec_qualifies (?T ! (a - 1))" by auto
    from spec_D_con_run [OF run' this that(2,3)] that b show ?thesis by (simp add: D)
  qed
  have three: "D_con (?ys ! Suc b) = 0"
    if "Suc b < length ?ys" "\<not> spec_qualifies (T_t (?ys ! Suc b))"
    using that by (simp add: D)
  from one two three show ?thesis by blast
qed

theorem D_con_runs_witness:
  "1 < length (build_hri series_B) \<and>
   spec_qualifies (T_t (build_hri series_B ! 0)) \<and>
   spec_qualifies (T_t (build_hri series_B ! 1)) \<and>
   D_con (build_hri series_B ! 0) = 1 \<and>
   D_con (build_hri series_B ! 1) = 2 \<and>
   Suc 1 < length (build_hri series_B) \<and>
   \<not> spec_qualifies (T_t (build_hri series_B ! Suc 1)) \<and>
   D_con (build_hri series_B ! Suc 1) = 0"
proof -
  have len: "length (build_hri series_B) = 3"
    by (simp add: length_build_hri series_B_def)
  have T: "map T_t (build_hri series_B) = [Finite 28.5, Finite 29.0, Finite 27.0]"
    by (simp add: map_T_t_build_hri series_B_def)
  have t0: "T_t (build_hri series_B ! 0) = Finite 28.5"
   and t1: "T_t (build_hri series_B ! 1) = Finite 29.0"
   and t2: "T_t (build_hri series_B ! Suc 1) = Finite 27.0"
    using arg_cong [OF T, of "\<lambda>l. l ! 0"] arg_cong [OF T, of "\<lambda>l. l ! 1"]
      arg_cong [OF T, of "\<lambda>l. l ! Suc 1"] len
    by simp_all
  have b: "1 < length (build_hri series_B)" using len by simp
  have run: "\<forall>k. 0 \<le> k \<and> k \<le> 1 \<longrightarrow> spec_qualifies (T_t (build_hri series_B ! k))"
  proof (intro allI impI)
    fix k :: nat assume "0 \<le> k \<and> k \<le> 1"
    then have "k = 0 \<or> k = 1" by auto
    then show "spec_qualifies (T_t (build_hri series_B ! k))"
      using t0 t1 by (auto simp add: spec_qualifies_def T_BASE_def)
  qed
  have brk: "\<not> spec_qualifies (T_t (build_hri series_B ! Suc 1))"
    using t2 by (simp add: spec_qualifies_def T_BASE_def)
  from D_con_runs [OF b run] brk len run b show ?thesis by simp
qed

section \<open>The sign of the index\<close>

lemma volatility_nonneg: "fl_ge (volatility_term (fillna (Finite 0) (fl_abs x))) (Finite 0)"
  by (cases x) (simp_all add: volatility_term_def fillna_def GAMMA_def signed_inf_def)

lemma excess_nonneg: "isfinite t \<Longrightarrow> fl_ge (excess_term t) (Finite 0)"
  by (cases t) (simp_all add: excess_term_def np_maximum_def fl_sub_def ALPHA_def)

lemma persistence_nonneg: "0 \<le> d \<Longrightarrow> fl_ge (persistence_term d) (Finite 0)"
  by (simp add: persistence_term_def BETA_def)

lemma fl_add_nonneg:
  "fl_ge a (Finite 0) \<Longrightarrow> fl_ge b (Finite 0) \<Longrightarrow> fl_ge (fl_add a b) (Finite 0)"
  by (cases a; cases b) simp_all

text \<open>
  Claim C9. On every day of the frame whose temperature is finite the index is not negative
  under the default weights: the clamped excess over the base temperature, the logarithm
  term, whose argument is at least one, and the weighted day-to-day difference are each
  not negative, and the index is their sum.
\<close>

theorem HRI_nonneg:
  assumes i: "i < length (build_hri xs)"
      and fin: "isfinite (T_t (build_hri xs ! i))"
  shows "fl_ge (excess_term (T_t (build_hri xs ! i))) (Finite 0) \<and>
         1 \<le> D_con (build_hri xs ! i) + 1 \<and>
         fl_ge (persistence_term (D_con (build_hri xs ! i))) (Finite 0) \<and>
         fl_ge (volatility_term (V_var (build_hri xs ! i))) (Finite 0) \<and>
         HRI (build_hri xs ! i) =
           fl_add (fl_add (excess_term (T_t (build_hri xs ! i)))
                          (persistence_term (D_con (build_hri xs ! i))))
                  (volatility_term (V_var (build_hri xs ! i))) \<and>
         fl_ge (HRI (build_hri xs ! i)) (Finite 0)"
proof -
  let ?r = "build_hri xs ! i"
  from i have i': "i < length xs" by (simp add: length_build_hri)
  have d: "0 \<le> D_con ?r"
    using build_hri_D_con [OF i'] by (simp add: spec_D_con_nonneg)
  have e: "fl_ge (excess_term (T_t ?r)) (Finite 0)"
    using fin by (rule excess_nonneg)
  have p: "fl_ge (persistence_term (D_con ?r)) (Finite 0)"
    using d by (rule persistence_nonneg)
  have v: "fl_ge (volatility_term (V_var ?r)) (Finite 0)"
    by (simp add: build_hri_nth [OF i'] mk_row_def Let_def volatility_nonneg)
  have h: "HRI ?r = fl_add (fl_add (excess_term (T_t ?r)) (persistence_term (D_con ?r)))
                           (volatility_term (V_var ?r))"
    by (simp add: build_hri_nth [OF i'] mk_row_def Let_def hri_formula_def)
  have "fl_ge (HRI ?r) (Finite 0)"
    unfolding h by (intro fl_add_nonneg e p v)
  with d e p v h show ?thesis by simp
qed

theorem HRI_nonneg_witness:
  "1 < length (build_hri series_A) \<and>
   isfinite (T_t (build_hri series_A ! 1)) \<and>
   HRI (build_hri series_A ! 1) = Finite (0.5 + 0.8 * ln 2 + 0.75) \<and>
   fl_ge (HRI (build_hri series_A ! 1)) (Finite 0)"
proof -
  have len: "1 < length (build_hri series_A)"
    by (simp add: length_build_hri series_A_def)
  have T: "map T_t (build_hri series_A) = [Finite 27.0, Finite 28.5, Finite 29.0]"
    by (simp add: map_T_t_build_hri series_A_def)
  have t1: "T_t (build_hri series_A ! 1) = Finite 28.5"
    using arg_cong [OF T, of "\<lambda>l. l ! 1"] len by simp
  then have fin: "isfinite (T_t (build_hri series_A ! 1))" by simp
  have h: "HRI (build_hri series_A ! 1) = Finite (0.5 + 0.8 * ln 2 + 0.75)"
    by (simp add: build_hri_def series_A_def mk_row_def hri_formula_def excess_term_def
          persistence_term_def volatility_term_def np_maximum_def fl_sub_def fillna_def
          T_BASE_def ALPHA_def BETA_def GAMMA_def)
  from HRI_nonneg [OF len fin] len fin h show ?thesis by simp
qed

section \<open>A missing day\<close>










section \<open>Sorting\<close>

lemma map_date_build_hri: "map date (build_hri xs) = map date (sort_key date xs)"
  by (rule nth_equalityI) (simp_all add: length_build_hri build_hri_nth mk_row_def Let_def)

lemma sort_key_permutation:
  assumes "distinct (map date xs)" and "mset ys = mset xs"
  shows "sort_key date ys = sort_key date xs"
proof (rule sort_key_inj_key_eq)
  show "mset ys = mset (sort_key date xs)" using assms by simp
  from assms(2) have "set ys = set xs" by (rule mset_eq_setD)
  moreover from assms(1) have "inj_on date (set xs)" by (simp add: distinct_map)
  ultimately show "inj_on date (set ys)" by simp
  show "sorted (map date (sort_key date xs))" by simp
qed

lemma build_hri_cong: "sort_key date ys = sort_key date xs \<Longrightarrow> build_hri ys = build_hri xs"
  by (simp add: build_hri_def)

text \<open>
  Claim C10. \<^verbatim>\<open>build_hri\<close> sorts its input and rejects nothing: it is a total function, its
  frame has one row for each input row and is in ascending date order whatever the order of
  the input, and for a series with one row per date every reordering of the rows gives the
  same frame, the frame of the series sorted by date.
\<close>

theorem build_hri_sorts:
  "sorted (map date (build_hri xs)) \<and>
   length (build_hri xs) = length xs \<and>
   mset (map date (build_hri xs)) = mset (map date xs) \<and>
   (distinct (map date xs) \<and> mset ys = mset xs \<longrightarrow>
      build_hri ys = build_hri xs \<and> build_hri xs = build_hri (sort_key date xs))"
proof -
  have a: "sorted (map date (build_hri xs))"
    by (simp add: map_date_build_hri)
  have b: "mset (map date (build_hri xs)) = mset (map date xs)"
    by (simp add: map_date_build_hri)
  have c: "build_hri ys = build_hri xs \<and> build_hri xs = build_hri (sort_key date xs)"
    if d: "distinct (map date xs)" and m: "mset ys = mset xs"
  proof
    from d m have "sort_key date ys = sort_key date xs" by (rule sort_key_permutation)
    then show "build_hri ys = build_hri xs" by (rule build_hri_cong)
    have "mset (sort_key date xs) = mset xs" by simp
    with d have "sort_key date (sort_key date xs) = sort_key date xs"
      by (rule sort_key_permutation)
    then show "build_hri xs = build_hri (sort_key date xs)" by (rule build_hri_cong [symmetric])
  qed
  from a b c show ?thesis by (simp add: length_build_hri)
qed

theorem build_hri_sorts_witness:
  "distinct (map date series_A) \<and>
   mset series_A_shuffled = mset series_A \<and>
   series_A_shuffled \<noteq> series_A \<and>
   build_hri series_A_shuffled = build_hri series_A \<and>
   map date (build_hri series_A_shuffled) = [(2024, 7, 20), (2024, 7, 21), (2024, 7, 22)]"
proof -
  have d: "distinct (map date series_A)" by (simp add: series_A_def)
  have m: "mset series_A_shuffled = mset series_A"
    by (simp add: series_A_def series_A_shuffled_def)
  have n: "series_A_shuffled \<noteq> series_A"
    by (simp add: series_A_def series_A_shuffled_def)
  have e: "build_hri series_A_shuffled = build_hri series_A"
    using build_hri_sorts [of series_A series_A_shuffled] d m by blast
  have s: "map date (build_hri series_A_shuffled) = [(2024, 7, 20), (2024, 7, 21), (2024, 7, 22)]"
    by (simp add: map_date_build_hri series_A_shuffled_def)
  from d m n e s show ?thesis by simp
qed

section \<open>The outputs of a run\<close>

lemma collect_rows_empty_iff:
  "(collect_rows source days = []) = (\<forall>d\<in>set days. source d = None)"
  by (induction days) (auto split: option.splits)

lemma map_date_collect_rows:
  "map date (collect_rows source days) = filter (\<lambda>d. source d \<noteq> None) days"
  by (induction days) (auto split: option.splits)

lemma main_empty:
  "collect_rows source days = [] \<Longrightarrow>
   main source days fs =
     (Inl (RuntimeError ''No processed days. Check network/URL/permissions.''), fs)"
  by (simp add: main_def)

lemma main_no_trigger:
  "collect_rows source days \<noteq> [] \<Longrightarrow>
   filter trigger (build_hri (collect_rows source days)) = [] \<Longrightarrow>
   main source days fs =
     (Inr (), fs\<lparr> OUT_HRI_CSV := Some (build_hri (collect_rows source days)),
                 OUT_TRIGGER_LIST_JSON := Some (JList []),
                 OUT_FINAL_EVENT_JSON := Some no_trigger_event \<rparr>)"
  by (simp add: main_def Let_def)

lemma main_trigger:
  "filter trigger (build_hri (collect_rows source days)) = r # rest \<Longrightarrow>
   main source days fs =
     (Inr (), fs\<lparr> OUT_HRI_CSV := Some (build_hri (collect_rows source days)),
                 OUT_TRIGGER_LIST_JSON := Some (JList (map row_record (r # rest))),
                 OUT_FINAL_EVENT_JSON := Some (build_final_event r) \<rparr>)"
proof -
  assume f: "filter trigger (build_hri (collect_rows source days)) = r # rest"
  then have "build_hri (collect_rows source days) \<noteq> []" by auto
  then have "collect_rows source days \<noteq> []"
    using length_build_hri [of "collect_rows source days"] by auto
  with f show ?thesis by (simp add: main_def Let_def)
qed

text \<open>
  Claim C8. When no day could be obtained the run ends with the error raised before the
  frame is built, and none of the three output paths is written: they are as they were
  before the run.
\<close>

theorem empty_series_fails:
  assumes "\<forall>d\<in>set days. source d = None"
  shows "collect_rows source days = [] \<and>
         fst (main source days fs) =
           Inl (RuntimeError ''No processed days. Check network/URL/permissions.'') \<and>
         snd (main source days fs) = fs"
  using assms by (simp add: collect_rows_empty_iff main_empty)

theorem empty_series_fails_witness:
  "collect_rows source_none days_1 = [] \<and>
   main source_none days_1 no_outputs =
     (Inl (RuntimeError ''No processed days. Check network/URL/permissions.''), no_outputs) \<and>
   OUT_HRI_CSV (snd (main source_none days_1 no_outputs)) = None \<and>
   OUT_TRIGGER_LIST_JSON (snd (main source_none days_1 no_outputs)) = None \<and>
   OUT_FINAL_EVENT_JSON (snd (main source_none days_1 no_outputs)) = None"
proof -
  have h: "\<forall>d\<in>set days_1. source_none d = None" by (simp add: source_none_def)
  from empty_series_fails [OF h, of no_outputs] show ?thesis
    by (simp add: prod_eq_iff no_outputs_def)
qed

lemma sorted_triggered:
  "sorted (map date (filter trigger (build_hri xs)))"
proof -
  have "sorted (map date (build_hri xs))" by (simp add: map_date_build_hri)
  then show ?thesis by (rule sorted_filter)
qed

lemma first_trigger_earliest:
  assumes f: "filter trigger (build_hri xs) = r # rest"
  shows "r \<in> set (build_hri xs)" "trigger r"
        "\<forall>r'\<in>set (build_hri xs). trigger r' \<longrightarrow> date r \<le> date r'"
proof -
  have "r \<in> set (filter trigger (build_hri xs))" by (simp add: f)
  then show "r \<in> set (build_hri xs)" "trigger r" by simp_all
  from sorted_triggered [of xs] f have s: "\<forall>r'\<in>set rest. date r \<le> date r'" by simp
  show "\<forall>r'\<in>set (build_hri xs). trigger r' \<longrightarrow> date r \<le> date r'"
  proof (intro ballI impI)
    fix r' assume "r' \<in> set (build_hri xs)" "trigger r'"
    then have "r' \<in> set (filter trigger (build_hri xs))" by simp
    with f have "r' = r \<or> r' \<in> set rest" by simp
    with s show "date r \<le> date r'" by auto
  qed
qed


lemma jump_rows:
  "collect_rows source_jump days_3 =
     [\<lparr> date = (2024, 9, 1), file_name = ''a.nc'', T_t = Finite 20.0 \<rparr>,
      \<lparr> date = (2024, 9, 2), file_name = ''b.nc'', T_t = Finite 27.0 \<rparr>]"
  by (simp add: source_jump_def days_3_def)

lemma jump_table:
  "build_hri (collect_rows source_jump days_3) =
     [\<lparr> date = (2024, 9, 1), file_name = ''a.nc'', T_t = Finite 20.0,
        D_con = 0, V_var = Finite 0, HRI = Finite 0, trigger = False, level = ''NORMAL'' \<rparr>,
      \<lparr> date = (2024, 9, 2), file_name = ''b.nc'', T_t = Finite 27.0,
        D_con = 0, V_var = Finite 7, HRI = Finite 3.5, trigger = True, level = ''NORMAL'' \<rparr>]"
  by (simp add: jump_rows build_hri_def mk_row_def Let_def hri_formula_def excess_term_def
        persistence_term_def volatility_term_def np_maximum_def fl_sub_def fillna_def
        risk_level_from_T_D_def T_BASE_def ALPHA_def BETA_def GAMMA_def HRI_THRESHOLD_def)


lemma strftime_example: "strftime_ymd (2024, 9, 2) = ''2024-09-02''"
  by code_simp

lemma jget_final_event:
  "jget (build_final_event r) ''date'' = Some (JStr (strftime_ymd (date r)))"
  "jget (build_final_event r) ''metrics'' =
     Some (JDict [(''T_t'', JFloat (T_t r)), (''D_con'', JInt (D_con r)),
                  (''V_var'', JFloat (V_var r)), (''HRI'', JFloat (HRI r))])"
  "jget (build_final_event r) ''decision'' =
     Some (JDict [(''triggered'', JBool True), (''level'', JStr (level r))])"
  by (simp_all add: build_final_event_def Let_def to_float_def)

lemma jkeys_final_event:
  "jkeys (build_final_event r) =
     [''event_type'', ''region'', ''date'', ''metrics'', ''threshold'', ''weights'', ''source'',
      ''decision'', ''message'']"
  by (simp add: build_final_event_def Let_def)

lemma jget_no_trigger_event:
  "jget no_trigger_event ''date'' = Some JNull"
  "jget no_trigger_event ''decision'' =
     Some (JDict [(''triggered'', JBool False), (''level'', JStr ''NORMAL'')])"
  "jget no_trigger_event ''message'' =
     Some (JStr ''[JEJU_OFFSHORE] No trigger in 2024-07-20 ~ 2024-10-05. Adjust threshold if needed.'')"
  "jget no_trigger_event ''metrics'' = None"
  by (simp_all add: no_trigger_event_def REGION_ID_def START_DATE_def END_DATE_def)

lemma jkeys_no_trigger_event:
  "jkeys no_trigger_event = [''event_type'', ''region'', ''date'', ''decision'', ''message'']"
  by (simp add: no_trigger_event_def)

lemma distinct_dates_build_hri:
  assumes "distinct days"
  shows "inj_on date (set (build_hri (collect_rows source days)))"
proof -
  let ?rows = "collect_rows source days"
  from assms have "distinct (map date ?rows)" by (simp add: map_date_collect_rows)
  moreover have "mset (map date (build_hri ?rows)) = mset (map date ?rows)"
    by (simp add: map_date_build_hri)
  ultimately have "distinct (map date (build_hri ?rows))"
    using mset_eq_imp_distinct_iff by blast
  then show ?thesis by (simp add: distinct_map)
qed

text \<open>
  Claim C5. After a run that obtained at least one day the three outputs agree: the CSV
  holds the frame, the trigger list holds the records of exactly the triggering rows of
  the frame and each of its records has trigger true, and when the final event says
  triggered, its date and its metrics block are those of a row of the frame, which is the
  only row with that date when the days asked of the source are pairwise different.
\<close>

theorem outputs_consistent:
  assumes run: "collect_rows source days \<noteq> []"
  shows "OUT_HRI_CSV (snd (main source days fs)) = Some (build_hri (collect_rows source days)) \<and>
         OUT_TRIGGER_LIST_JSON (snd (main source days fs)) =
           Some (JList (map row_record (filter trigger (build_hri (collect_rows source days))))) \<and>
         (\<forall>rec\<in>set (map row_record (filter trigger (build_hri (collect_rows source days)))).
            jget rec ''trigger'' = Some (JBool True)) \<and>
         (\<exists>ev d. OUT_FINAL_EVENT_JSON (snd (main source days fs)) = Some ev \<and>
            jget ev ''decision'' = Some d \<and>
            (jget d ''triggered'' = Some (JBool True) \<longrightarrow>
               (\<exists>r\<in>set (build_hri (collect_rows source days)).
                  jget ev ''date'' = Some (JStr (strftime_ymd (date r))) \<and>
                  jget ev ''metrics'' =
                    Some (JDict [(''T_t'', JFloat (T_t r)), (''D_con'', JInt (D_con r)),
                                 (''V_var'', JFloat (V_var r)), (''HRI'', JFloat (HRI r))]) \<and>
                  (distinct days \<longrightarrow>
                     (\<forall>r'\<in>set (build_hri (collect_rows source days)).
                        date r' = date r \<longrightarrow> r' = r)))))"
proof -
  let ?table = "build_hri (collect_rows source days)"
  have recs: "\<forall>rec\<in>set (map row_record (filter trigger ?table)).
        jget rec ''trigger'' = Some (JBool True)"
    by (auto simp add: row_record_def)
  show ?thesis
  proof (cases "filter trigger ?table")
    case Nil
    from main_no_trigger [OF run Nil, of fs] Nil recs show ?thesis
      by (simp add: jget_no_trigger_event)
  next
    case (Cons r rest)
    have r: "r \<in> set ?table" using first_trigger_earliest(1) [OF Cons] .
    have u: "\<forall>r'\<in>set ?table. date r' = date r \<longrightarrow> r' = r" if "distinct days"
      using distinct_dates_build_hri [OF that, of source] r by (auto dest: inj_onD)
    from main_trigger [OF Cons, of fs] have
      "OUT_FINAL_EVENT_JSON (snd (main source days fs)) = Some (build_final_event r)"
      "OUT_HRI_CSV (snd (main source days fs)) = Some ?table"
      "OUT_TRIGGER_LIST_JSON (snd (main source days fs)) =
         Some (JList (map row_record (filter trigger ?table)))"
      by (simp_all add: Cons)
    with recs r u show ?thesis
      by (auto simp add: jget_final_event)
  qed
qed

lemma jump_main:
  "main source_jump days_3 no_outputs =
     (Inr (),
      no_outputs\<lparr> OUT_HRI_CSV := Some (build_hri (collect_rows source_jump days_3)),
                  OUT_TRIGGER_LIST_JSON :=
                    Some (JList [row_record (build_hri (collect_rows source_jump days_3) ! 1)]),
                  OUT_FINAL_EVENT_JSON :=
                    Some (build_final_event (build_hri (collect_rows source_jump days_3) ! 1)) \<rparr>)"
proof -
  have "filter trigger (build_hri (collect_rows source_jump days_3)) =
          [build_hri (collect_rows source_jump days_3) ! 1]"
    by (simp add: jump_table)
  from main_trigger [OF this, of no_outputs] show ?thesis by simp
qed

theorem outputs_consistent_witness:
  "collect_rows source_jump days_3 \<noteq> [] \<and>
   distinct days_3 \<and>
   OUT_HRI_CSV (snd (main source_jump days_3 no_outputs)) =
     Some (build_hri (collect_rows source_jump days_3)) \<and>
   OUT_FINAL_EVENT_JSON (snd (main source_jump days_3 no_outputs)) =
     Some (build_final_event (build_hri (collect_rows source_jump days_3) ! 1)) \<and>
   jget (build_final_event (build_hri (collect_rows source_jump days_3) ! 1)) ''decision'' =
     Some (JDict [(''triggered'', JBool True), (''level'', JStr ''NORMAL'')]) \<and>
   jget (build_final_event (build_hri (collect_rows source_jump days_3) ! 1)) ''date'' =
     Some (JStr (strftime_ymd (2024, 9, 2))) \<and>
   jget (build_final_event (build_hri (collect_rows source_jump days_3) ! 1)) ''metrics'' =
     Some (JDict [(''T_t'', JFloat (Finite 27.0)), (''D_con'', JInt 0),
                  (''V_var'', JFloat (Finite 7)), (''HRI'', JFloat (Finite 3.5))])"
proof -
  have run: "collect_rows source_jump days_3 \<noteq> []" by (simp add: jump_rows)
  have d: "distinct days_3" by (simp add: days_3_def)
  from outputs_consistent [OF run, of no_outputs] run d jump_main show ?thesis
    by (simp add: jget_final_event jump_table)
qed

lemma cold_table:
  "build_hri (collect_rows source_cold days_1) =
     [\<lparr> date = (2024, 9, 1), file_name = ''a.nc'', T_t = Finite 20.0,
        D_con = 0, V_var = Finite 0, HRI = Finite 0, trigger = False, level = ''NORMAL'' \<rparr>]"
  by (simp add: source_cold_def days_1_def build_hri_def mk_row_def Let_def hri_formula_def
        excess_term_def persistence_term_def volatility_term_def np_maximum_def fl_sub_def
        fillna_def risk_level_from_T_D_def T_BASE_def ALPHA_def BETA_def GAMMA_def
        HRI_THRESHOLD_def)

text \<open>
  Claim C7 does not hold as stated: the payload of a run without a trigger does not carry
  the keys of a triggering payload. The run on one cool day writes a payload of five keys,
  the run on the two days 20.0 and 27.0 writes a triggering payload of nine keys, and the
  metrics block is in the second only.
\<close>

theorem no_trigger_payload_keys_counterexample:
  "filter trigger (build_hri (collect_rows source_cold days_1)) = [] \<and>
   OUT_FINAL_EVENT_JSON (snd (main source_cold days_1 no_outputs)) = Some no_trigger_event \<and>
   jkeys no_trigger_event = [''event_type'', ''region'', ''date'', ''decision'', ''message''] \<and>
   jget no_trigger_event ''metrics'' = None \<and>
   OUT_FINAL_EVENT_JSON (snd (main source_jump days_3 no_outputs)) =
     Some (build_final_event (build_hri (collect_rows source_jump days_3) ! 1)) \<and>
   jkeys (build_final_event (build_hri (collect_rows source_jump days_3) ! 1)) =
     [''event_type'', ''region'', ''date'', ''metrics'', ''threshold'', ''weights'', ''source'',
      ''decision'', ''message''] \<and>
   jget (build_final_event (build_hri (collect_rows source_jump days_3) ! 1)) ''metrics'' \<noteq> None \<and>
   set (jkeys no_trigger_event) \<noteq>
     set (jkeys (build_final_event (build_hri (collect_rows source_jump days_3) ! 1)))"
proof -
  have f: "filter trigger (build_hri (collect_rows source_cold days_1)) = []"
    by (simp add: cold_table)
  have run: "collect_rows source_cold days_1 \<noteq> []"
    by (simp add: source_cold_def days_1_def)
  have "''metrics'' \<notin> set (jkeys no_trigger_event)"
    by (simp add: jkeys_no_trigger_event)
  moreover have "''metrics'' \<in>
      set (jkeys (build_final_event (build_hri (collect_rows source_jump days_3) ! 1)))"
    by (simp add: jkeys_final_event)
  ultimately have ne: "set (jkeys no_trigger_event) \<noteq>
      set (jkeys (build_final_event (build_hri (collect_rows source_jump days_3) ! 1)))"
    by blast
  from main_no_trigger [OF run f, of no_outputs] f ne jump_main show ?thesis
    by (simp add: jkeys_no_trigger_event jkeys_final_event jget_no_trigger_event
          jget_final_event)
qed

text \<open>
  Claim C7, amended. After a run that obtained at least one day and in which no day
  triggers, the final event is the payload with decision triggered false and level NORMAL,
  a null date and an explanatory message. It is a minimal payload: its keys are the event type,
  region, date, decision and message, five of the nine keys of a triggering payload, which
  has the metrics, threshold, weights and source blocks besides; the flag triggered in the
  decision block, false here and true in every triggering payload, tells the two apart.
\<close>

theorem no_trigger_payload:
  assumes run: "collect_rows source days \<noteq> []"
      and none: "\<forall>r\<in>set (build_hri (collect_rows source days)). \<not> trigger r"
  shows "fst (main source days fs) = Inr () \<and>
         OUT_FINAL_EVENT_JSON (snd (main source days fs)) = Some no_trigger_event \<and>
         jget no_trigger_event ''decision'' =
           Some (JDict [(''triggered'', JBool False), (''level'', JStr ''NORMAL'')]) \<and>
         jget no_trigger_event ''date'' = Some JNull \<and>
         jget no_trigger_event ''message'' =
           Some (JStr ''[JEJU_OFFSHORE] No trigger in 2024-07-20 ~ 2024-10-05. Adjust threshold if needed.'') \<and>
         jkeys no_trigger_event = [''event_type'', ''region'', ''date'', ''decision'', ''message''] \<and>
         jkeys (build_final_event row) =
           [''event_type'', ''region'', ''date'', ''metrics'', ''threshold'', ''weights'',
            ''source'', ''decision'', ''message''] \<and>
         set (jkeys no_trigger_event) \<subseteq> set (jkeys (build_final_event row)) \<and>
         jget (build_final_event row) ''decision'' =
           Some (JDict [(''triggered'', JBool True), (''level'', JStr (level row))])"
proof -
  from none have f: "filter trigger (build_hri (collect_rows source days)) = []"
    by (simp add: filter_empty_conv)
  from main_no_trigger [OF run f, of fs] show ?thesis
    by (simp add: jget_no_trigger_event jkeys_no_trigger_event jkeys_final_event
          jget_final_event)
qed

theorem no_trigger_payload_witness:
  "collect_rows source_cold days_1 \<noteq> [] \<and>
   filter trigger (build_hri (collect_rows source_cold days_1)) = [] \<and>
   main source_cold days_1 no_outputs =
     (Inr (),
      no_outputs\<lparr> OUT_HRI_CSV := Some (build_hri (collect_rows source_cold days_1)),
                  OUT_TRIGGER_LIST_JSON := Some (JList []),
                  OUT_FINAL_EVENT_JSON := Some no_trigger_event \<rparr>) \<and>
   OUT_FINAL_EVENT_JSON (snd (main source_cold days_1 no_outputs)) = Some no_trigger_event"
proof -
  have run: "collect_rows source_cold days_1 \<noteq> []"
    by (simp add: source_cold_def days_1_def)
  have f: "filter trigger (build_hri (collect_rows source_cold days_1)) = []"
    by (simp add: cold_table)
  then have none: "\<forall>r\<in>set (build_hri (collect_rows source_cold days_1)). \<not> trigger r"
    by (simp add: filter_empty_conv)
  from no_trigger_payload [OF run none, of no_outputs] main_no_trigger [OF run f, of no_outputs]
    run f show ?thesis by simp
qed

section \<open>Evaluated series\<close>

text \<open>The three days 27.0, 28.5 and 29.0: streak, difference, index and level of each day.\<close>

lemma series_A_frame:
  "map (\<lambda>r. (D_con r, V_var r, HRI r, level r)) (build_hri series_A) =
     [(0, Finite 0, Finite 0, ''NORMAL''),
      (1, Finite 1.5, Finite (0.5 + 0.8 * ln 2 + 0.75), ''WATCH''),
      (2, Finite 0.5, Finite (1 + 0.8 * ln 3 + 0.25), ''WATCH'')]"
  by (simp add: series_A_def build_hri_def mk_row_def Let_def hri_formula_def excess_term_def
        persistence_term_def volatility_term_def np_maximum_def fl_sub_def fillna_def
        risk_level_from_T_D_def T_BASE_def ALPHA_def BETA_def GAMMA_def SEVERE_TEMP_def)

text \<open>
  The series of the specification hold temperatures that are finite or missing, one row per
  date. \<^verbatim>\<open>build_hri\<close> accepts other frames too. An infinite temperature is not finite, so its
  level is UNKNOWN and its streak zero, but it is not NaN either: the index is infinite and
  the day triggers. With two rows of one date the frame depends on the order of the rows.
\<close>

lemma infinite_temperature_frame:
  "build_hri series_inf =
     [\<lparr> date = (2024, 8, 20), file_name = ''a.nc'', T_t = PosInf,
        D_con = 0, V_var = Finite 0, HRI = PosInf, trigger = True, level = ''UNKNOWN'' \<rparr>]"
  by (simp add: series_inf_def build_hri_def mk_row_def Let_def hri_formula_def excess_term_def
        persistence_term_def volatility_term_def np_maximum_def fl_sub_def fillna_def
        signed_inf_def risk_level_from_T_D_def T_BASE_def ALPHA_def BETA_def GAMMA_def
        HRI_THRESHOLD_def)

lemma duplicate_dates_frame:
  "map D_con (build_hri series_dup) = [0, 1] \<and>
   map D_con (build_hri (rev series_dup)) = [1, 0]"
  by (simp add: series_dup_def build_hri_def mk_row_def Let_def T_BASE_def)

end
